theory Spec2Isabelle
  imports Main "HOL-Library.Word"
begin

section \<open>The product controller of the PRODUCTIFY backend\<close>

text \<open>
  The six request handlers of the product controller
  (\<^verbatim>\<open>getAllProducts\<close>, \<^verbatim>\<open>getMyProducts\<close>, \<^verbatim>\<open>getProductById\<close>,
  \<^verbatim>\<open>createProduct\<close>, \<^verbatim>\<open>updateProduct\<close>, \<^verbatim>\<open>deleteProduct\<close>) are embedded as
  functions from the persistence layer, the request and the state of the store to the
  response sent, the persistence calls made (in order) and the state of the store
  afterwards. Each handler sends exactly one response on every path, so
  \<^verbatim>\<open>res.status(n).json(b)\<close> is the returned record. The \<^verbatim>\<open>console.error\<close> of the
  \<^verbatim>\<open>catch\<close> blocks writes to the server log only and is left out.
\<close>

subsection \<open>JavaScript values\<close>

text \<open>
  A JavaScript string is a sequence of 16-bit code units. String literals of the source
  are ASCII; \<open>js\<close> turns such a literal into its code units.
\<close>

type_synonym jsstring = "16 word list"

definition js :: "string \<Rightarrow> jsstring" where
  "js s = map of_char s"

text \<open>
  \<^verbatim>\<open>String.prototype.trim\<close> removes white space and line terminators from both ends:
  TAB, LF, VT, FF, CR, SP, NBSP, the other space separators of Unicode
  (U+1680, U+2000 to U+200A, U+202F, U+205F, U+3000), LS, PS and the byte order mark.
\<close>

definition isWhiteSpace :: "16 word \<Rightarrow> bool" where
  "isWhiteSpace c \<longleftrightarrow>
     c = 0x9 \<or> c = 0xA \<or> c = 0xB \<or> c = 0xC \<or> c = 0xD \<or> c = 0x20 \<or> c = 0xA0 \<or>
     c = 0x1680 \<or> (0x2000 \<le> c \<and> c \<le> 0x200A) \<or> c = 0x2028 \<or> c = 0x2029 \<or>
     c = 0x202F \<or> c = 0x205F \<or> c = 0x3000 \<or> c = 0xFEFF"

definition trim :: "jsstring \<Rightarrow> jsstring" where
  "trim s = rev (dropWhile isWhiteSpace (rev (dropWhile isWhiteSpace s)))"

text \<open>
  The values a parsed request body is made of. An object is the list of its own
  properties; a property is read with \<open>map_of\<close>. The handlers only ask whether a value
  is a string, so the payload of a number is kept as an integer.
\<close>

datatype jsval =
    JUndefined
  | JNull
  | JBool bool
  | JNum int
  | JStr jsstring
  | JArr "jsval list"
  | JObj "(jsstring \<times> jsval) list"

datatype exn = TypeError | InfrastructureFailure

text \<open>
  Reading a property, as the destructuring \<^verbatim>\<open>const { title, ... } = req.body\<close> does:
  on \<^verbatim>\<open>undefined\<close> and \<^verbatim>\<open>null\<close> it throws a TypeError; on an object it is the
  property's value, \<^verbatim>\<open>undefined\<close> when there is none; the other values have none of
  the properties the handlers read.
\<close>

fun getProp :: "jsval \<Rightarrow> jsstring \<Rightarrow> exn + jsval" where
  "getProp JUndefined k = Inl TypeError"
| "getProp JNull k = Inl TypeError"
| "getProp (JObj kvs) k = Inr (case map_of kvs k of None \<Rightarrow> JUndefined | Some v \<Rightarrow> v)"
| "getProp v k = Inr JUndefined"

text \<open>\<^verbatim>\<open>const { title, description, imageUrl } = req.body\<close>\<close>

definition destructure :: "jsval \<Rightarrow> exn + (jsval \<times> jsval \<times> jsval)" where
  "destructure b =
     (case getProp b (js ''title'') of
        Inl e \<Rightarrow> Inl e
      | Inr title \<Rightarrow>
          (case getProp b (js ''description'') of
             Inl e \<Rightarrow> Inl e
           | Inr description \<Rightarrow>
               (case getProp b (js ''imageUrl'') of
                  Inl e \<Rightarrow> Inl e
                | Inr imageUrl \<Rightarrow> Inr (title, description, imageUrl))))"

text \<open>\<^verbatim>\<open>typeof v === 'string' && v.trim().length > 0\<close>\<close>

fun isNonEmptyString :: "jsval \<Rightarrow> bool" where
  "isNonEmptyString (JStr s) = (length (trim s) > 0)"
| "isNonEmptyString v = False"

text \<open>
  The handlers hand a body value of type \<^verbatim>\<open>any\<close> to a field of type \<^verbatim>\<open>string\<close>.
  They do so only after \<open>isNonEmptyString\<close> has accepted the value, which is then a
  string (lemma \<open>isNonEmptyString_asString\<close>); \<open>asString\<close> reads that string.
\<close>

fun asString :: "jsval \<Rightarrow> jsstring" where
  "asString (JStr s) = s"
| "asString v = []"

subsection \<open>Requests and responses\<close>

text \<open>
  \<^verbatim>\<open>req.params.id\<close> is absent, a string or a sequence of strings.
  \<open>firstOrSelf\<close> is \<^verbatim>\<open>Array.isArray(id) ? id[0] : id\<close>; the first element of an empty
  sequence is \<^verbatim>\<open>undefined\<close>.
\<close>

datatype param = Absent | Single jsstring | Multiple "jsstring list"

fun firstOrSelf :: "param \<Rightarrow> jsstring option" where
  "firstOrSelf Absent = None"
| "firstOrSelf (Single s) = Some s"
| "firstOrSelf (Multiple []) = None"
| "firstOrSelf (Multiple (s # ss)) = Some s"

text \<open>
  \<open>auth\<close> is the \<^verbatim>\<open>userId\<close> of \<^verbatim>\<open>getAuth(req)\<close>: a string, or \<^verbatim>\<open>null\<close> when the
  request carries no session.
\<close>

record request =
  auth :: "jsstring option"
  params_id :: param
  body :: jsval

text \<open>
  Modelled from the spec: the \<^verbatim>\<open>Product\<close> type of \<^verbatim>\<open>../db/queries\<close> is not part of
  the sources at hand; the record has the five fields of the spec's data model.
\<close>

record product =
  id_p :: jsstring
  title :: jsstring
  description :: jsstring
  imageUrl :: jsstring
  userId :: jsstring

datatype resbody =
    ErrorJ string
  | MessageJ string
  | ProductJ "product option"
  | ProductsJ "product list"

record response =
  status :: nat
  json :: resbody

subsection \<open>The persistence layer\<close>

text \<open>The argument of \<^verbatim>\<open>queries.createProduct\<close>.\<close>

record newProduct =
  np_title :: jsstring
  np_description :: jsstring
  np_imageUrl :: jsstring
  np_userId :: jsstring

text \<open>
  \<^verbatim>\<open>Partial<{ title: string; description: string; imageUrl: string }>\<close>:
  a field is \<open>None\<close> when the object has no such key.
\<close>

record updates =
  u_title :: "jsstring option"
  u_description :: "jsstring option"
  u_imageUrl :: "jsstring option"

definition noUpdates :: updates where
  "noUpdates = \<lparr>u_title = None, u_description = None, u_imageUrl = None\<rparr>"

text \<open>\<^verbatim>\<open>Object.keys(updates)\<close>\<close>

definition keys :: "updates \<Rightarrow> string list" where
  "keys u =
     (if u_title u \<noteq> None then [''title''] else []) @
     (if u_description u \<noteq> None then [''description''] else []) @
     (if u_imageUrl u \<noteq> None then [''imageUrl''] else [])"

text \<open>
  The module \<^verbatim>\<open>../db/queries\<close> is not part of the sources at hand. The handlers take
  it as a parameter: six operations on a store of type \<open>'s\<close>, each of which returns
  its result, or the error it raises (\<open>Inl\<close>), and the store afterwards. A product that
  is not found is \<open>None\<close> (\<^verbatim>\<open>null\<close>). The handlers of \<^verbatim>\<open>updateProduct\<close> and
  \<^verbatim>\<open>deleteProduct\<close> pass the id on as it comes, so an id may be \<^verbatim>\<open>undefined\<close> (\<open>None\<close>).
\<close>

record 's queries =
  q_getAllProducts :: "'s \<Rightarrow> (exn + product list) \<times> 's"
  q_getProductsByUserId :: "jsstring \<Rightarrow> 's \<Rightarrow> (exn + product list) \<times> 's"
  q_getProductById :: "jsstring option \<Rightarrow> 's \<Rightarrow> (exn + product option) \<times> 's"
  q_createProduct :: "newProduct \<Rightarrow> 's \<Rightarrow> (exn + product option) \<times> 's"
  q_updateProduct :: "jsstring option \<Rightarrow> updates \<Rightarrow> 's \<Rightarrow> (exn + product option) \<times> 's"
  q_deleteProduct :: "jsstring option \<Rightarrow> 's \<Rightarrow> (exn + unit) \<times> 's"

text \<open>The persistence calls a handler makes, with their arguments.\<close>

datatype call =
    GetAllProducts
  | GetProductsByUserId jsstring
  | GetProductById "jsstring option"
  | CreateProduct newProduct
  | UpdateProduct "jsstring option" updates
  | DeleteProduct "jsstring option"

subsection \<open>The handlers\<close>

definition respond :: "nat \<Rightarrow> resbody \<Rightarrow> response" where
  "respond n b = \<lparr>status = n, json = b\<rparr>"

definition getAllProducts :: "'s queries \<Rightarrow> request \<Rightarrow> 's \<Rightarrow> response \<times> call list \<times> 's" where
  "getAllProducts q req st =
     (case q_getAllProducts q st of
        (Inl error, st') \<Rightarrow>
          (respond 500 (ErrorJ ''Failed to get products''), [GetAllProducts], st')
      | (Inr products, st') \<Rightarrow>
          (respond 200 (ProductsJ products), [GetAllProducts], st'))"

text \<open>\<^verbatim>\<open>!userId\<close> holds of \<^verbatim>\<open>null\<close> and of the empty string.\<close>

definition getMyProducts :: "'s queries \<Rightarrow> request \<Rightarrow> 's \<Rightarrow> response \<times> call list \<times> 's" where
  "getMyProducts q req st =
     (case auth req of
        None \<Rightarrow> (respond 401 (ErrorJ ''Unauthorized''), [], st)
      | Some uid \<Rightarrow>
          if uid = [] then (respond 401 (ErrorJ ''Unauthorized''), [], st)
          else
            (case q_getProductsByUserId q uid st of
               (Inl error, st') \<Rightarrow>
                 (respond 500 (ErrorJ ''Failed to get user products''),
                  [GetProductsByUserId uid], st')
             | (Inr products, st') \<Rightarrow>
                 (respond 200 (ProductsJ products), [GetProductsByUserId uid], st')))"

text \<open>\<^verbatim>\<open>!rawId\<close> holds of \<^verbatim>\<open>undefined\<close> and of the empty string.\<close>

definition getProductById :: "'s queries \<Rightarrow> request \<Rightarrow> 's \<Rightarrow> response \<times> call list \<times> 's" where
  "getProductById q req st =
     (let rawId = firstOrSelf (params_id req) in
      if rawId = None \<or> rawId = Some []
      then (respond 400 (ErrorJ ''Product id is required''), [], st)
      else
        (case q_getProductById q rawId st of
           (Inl error, st') \<Rightarrow>
             (respond 500 (ErrorJ ''Failed to get product''), [GetProductById rawId], st')
         | (Inr None, st') \<Rightarrow>
             (respond 404 (ErrorJ ''Product not found''), [GetProductById rawId], st')
         | (Inr (Some p), st') \<Rightarrow>
             (respond 200 (ProductJ (Some p)), [GetProductById rawId], st')))"


text \<open>
  The three blocks of \<^verbatim>\<open>updateProduct\<close> that check a field of the body and add it to
  \<^verbatim>\<open>updates\<close>: each either answers 400 with its message (\<open>Inl\<close>) or goes on with the
  updates collected so far.
\<close>

definition checkTitle :: "jsval \<Rightarrow> updates \<Rightarrow> string + updates" where
  "checkTitle t u =
     (if t \<noteq> JUndefined then
        (if \<not> isNonEmptyString t then Inl ''Invalid title''
         else Inr (u\<lparr>u_title := Some (asString t)\<rparr>))
      else Inr u)"

definition checkDescription :: "jsval \<Rightarrow> updates \<Rightarrow> string + updates" where
  "checkDescription d u =
     (if d \<noteq> JUndefined then
        (if \<not> isNonEmptyString d then Inl ''Invalid description''
         else Inr (u\<lparr>u_description := Some (asString d)\<rparr>))
      else Inr u)"

definition checkImageUrl :: "jsval \<Rightarrow> updates \<Rightarrow> string + updates" where
  "checkImageUrl i u =
     (if i \<noteq> JUndefined then
        (if \<not> isNonEmptyString i then Inl ''Invalid imageUrl''
         else Inr (u\<lparr>u_imageUrl := Some (asString i)\<rparr>))
      else Inr u)"

definition collectUpdates :: "jsval \<Rightarrow> jsval \<Rightarrow> jsval \<Rightarrow> string + updates" where
  "collectUpdates t d i =
     (case checkTitle t noUpdates of
        Inl msg \<Rightarrow> Inl msg
      | Inr u1 \<Rightarrow>
          (case checkDescription d u1 of
             Inl msg \<Rightarrow> Inl msg
           | Inr u2 \<Rightarrow>
               (case checkImageUrl i u2 of
                  Inl msg \<Rightarrow> Inl msg
                | Inr u3 \<Rightarrow> Inr u3)))"

definition updateProduct :: "'s queries \<Rightarrow> request \<Rightarrow> 's \<Rightarrow> response \<times> call list \<times> 's" where
  "updateProduct q req st =
     (case auth req of
        None \<Rightarrow> (respond 401 (ErrorJ ''Unauthorized''), [], st)
      | Some uid \<Rightarrow>
          if uid = [] then (respond 401 (ErrorJ ''Unauthorized''), [], st)
          else
            (case destructure (body req) of
               Inl error \<Rightarrow> (respond 500 (ErrorJ ''Failed to update product''), [], st)
             | Inr (t, d, i) \<Rightarrow>
                 (case collectUpdates t d i of
                    Inl msg \<Rightarrow> (respond 400 (ErrorJ msg), [], st)
                  | Inr upd \<Rightarrow>
                      if length (keys upd) = 0
                      then (respond 400 (ErrorJ ''At least one field is required''), [], st)
                      else
                       (let rid = firstOrSelf (params_id req) in
                        case q_getProductById q rid st of
                         (Inl error, st1) \<Rightarrow>
                           (respond 500 (ErrorJ ''Failed to update product''),
                            [GetProductById rid], st1)
                       | (Inr None, st1) \<Rightarrow>
                           (respond 404 (ErrorJ ''Product not found''),
                            [GetProductById rid], st1)
                       | (Inr (Some existingProduct), st1) \<Rightarrow>
                           if userId existingProduct \<noteq> uid
                           then (respond 403 (ErrorJ ''You can only update your own products''),
                                 [GetProductById rid], st1)
                           else
                             (case q_updateProduct q rid upd st1 of
                                (Inl error, st2) \<Rightarrow>
                                  (respond 500 (ErrorJ ''Failed to update product''),
                                   [GetProductById rid, UpdateProduct rid upd], st2)
                              | (Inr p, st2) \<Rightarrow>
                                  (respond 200 (ProductJ p),
                                   [GetProductById rid, UpdateProduct rid upd], st2))))))"

definition deleteProduct :: "'s queries \<Rightarrow> request \<Rightarrow> 's \<Rightarrow> response \<times> call list \<times> 's" where
  "deleteProduct q req st =
     (case auth req of
        None \<Rightarrow> (respond 401 (ErrorJ ''Unauthorized''), [], st)
      | Some uid \<Rightarrow>
          if uid = [] then (respond 401 (ErrorJ ''Unauthorized''), [], st)
          else
            (let rid = firstOrSelf (params_id req) in
             case q_getProductById q rid st of
               (Inl error, st1) \<Rightarrow>
                 (respond 500 (ErrorJ ''Failed to delete product''), [GetProductById rid], st1)
             | (Inr None, st1) \<Rightarrow>
                 (respond 404 (ErrorJ ''Product not found''), [GetProductById rid], st1)
             | (Inr (Some existingProduct), st1) \<Rightarrow>
                 if userId existingProduct \<noteq> uid
                 then (respond 403 (ErrorJ ''You can only delete your own products''),
                       [GetProductById rid], st1)
                 else
                   (case q_deleteProduct q rid st1 of
                      (Inl error, st2) \<Rightarrow>
                        (respond 500 (ErrorJ ''Failed to delete product''),
                         [GetProductById rid, DeleteProduct rid], st2)
                    | (Inr u, st2) \<Rightarrow>
                        (respond 200 (MessageJ ''Product deleted successfully''),
                         [GetProductById rid, DeleteProduct rid], st2))))"

subsection \<open>What the handlers expect of the persistence layer\<close>

text \<open>
  The spec gives the contract of the missing functions of \<^verbatim>\<open>../db/queries\<close> (section 6,
  and the behaviour lines of section 4.1). The predicates below state, for a persistence
  layer \<open>q\<close>, the parts of it that the properties of the handlers rest on.
\<close>

text \<open>
  Modelled from the spec: the effect of the missing \<^verbatim>\<open>queries.updateProduct\<close> on a
  product, "apply only the supplied, validated fields as a partial update; unspecified
  fields retain prior values".
\<close>

definition applyUpdates :: "updates \<Rightarrow> product \<Rightarrow> product" where
  "applyUpdates u p =
     p\<lparr>title := (case u_title u of None \<Rightarrow> title p | Some s \<Rightarrow> s),
       description := (case u_description u of None \<Rightarrow> description p | Some s \<Rightarrow> s),
       imageUrl := (case u_imageUrl u of None \<Rightarrow> imageUrl p | Some s \<Rightarrow> s)\<rparr>"


text \<open>
  Modelled from the spec: the missing \<^verbatim>\<open>queries.updateProduct\<close>, called after a lookup
  of the same id has found \<open>p\<close>, returns \<open>p\<close> with the partial update applied.
\<close>

definition updatesAsGiven :: "'s queries \<Rightarrow> bool" where
  "updatesAsGiven q \<longleftrightarrow>
     (\<forall>rid u st p st1 p' st2.
        q_getProductById q rid st = (Inr (Some p), st1) \<and>
        q_updateProduct q rid u st1 = (Inr (Some p'), st2) \<longrightarrow> p' = applyUpdates u p)"

text \<open>
  Modelled from the spec: the missing \<^verbatim>\<open>queries.deleteProduct\<close> is to "remove the
  Product"; after it has returned, a lookup of the same id finds nothing and leaves the
  store as it is.
\<close>

definition deleteRemoves :: "'s queries \<Rightarrow> bool" where
  "deleteRemoves q \<longleftrightarrow>
     (\<forall>rid st st'. q_deleteProduct q rid st = (Inr (), st') \<longrightarrow>
        q_getProductById q rid st' = (Inr None, st'))"

subsection \<open>A store in memory\<close>

text \<open>
  Modelled from the spec: a stand-in for the missing module \<^verbatim>\<open>../db/queries\<close>, which
  keeps the products in a list and never raises. It is the persistence layer of the
  examples. \<open>hasId\<close> is the match of a product with the id asked for (\<open>None\<close>, the
  \<^verbatim>\<open>undefined\<close> id, matches no product).
\<close>

type_synonym store = "product list"

definition hasId :: "jsstring option \<Rightarrow> product \<Rightarrow> bool" where
  "hasId rid p \<longleftrightarrow> rid = Some (id_p p)"

text \<open>
  Modelled from the spec: the "opaque unique identifier, assigned at creation" of the
  missing \<^verbatim>\<open>queries.createProduct\<close>; it is longer than the id of every product of the
  store, so none of them has it.
\<close>

definition freshId :: "store \<Rightarrow> jsstring" where
  "freshId st = js ''p'' @ concat (map id_p st)"

text \<open>
  Modelled from the spec: the six operations of the missing module \<^verbatim>\<open>../db/queries\<close>
  (spec, section 6) on the list of products.
\<close>

definition mem :: "store queries" where
  "mem =
     \<lparr>q_getAllProducts = (\<lambda>st. (Inr st, st)),
      q_getProductsByUserId = (\<lambda>uid st. (Inr (filter (\<lambda>p. userId p = uid) st), st)),
      q_getProductById = (\<lambda>rid st. (Inr (find (hasId rid) st), st)),
      q_createProduct = (\<lambda>np st.
         (let p = \<lparr>id_p = freshId st, title = np_title np, description = np_description np,
                   imageUrl = np_imageUrl np, userId = np_userId np\<rparr>
          in (Inr (Some p), st @ [p]))),
      q_updateProduct = (\<lambda>rid u st.
         (case find (hasId rid) st of
            None \<Rightarrow> (Inr None, st)
          | Some p \<Rightarrow>
              (Inr (Some (applyUpdates u p)),
               map (\<lambda>x. if hasId rid x then applyUpdates u x else x) st))),
      q_deleteProduct = (\<lambda>rid st. (Inr (), filter (\<lambda>p. \<not> hasId rid p) st))\<rparr>"

subsection \<open>Example data\<close>

text \<open>
  Two callers and the product of the spec's end-to-end scenarios, as the store in
  memory creates it for the first caller in an empty store.
\<close>

definition userA :: jsstring where
  "userA = js ''user_A''"

definition userB :: jsstring where
  "userB = js ''user_B''"

definition productP :: product where
  "productP = \<lparr>id_p = js ''p'', title = js ''T'', description = js ''D'',
                imageUrl = js ''http://x/y.png'', userId = userA\<rparr>"

section \<open>Properties\<close>

subsection \<open>Auxiliary facts\<close>

lemmas example_defs = js_def userA_def userB_def productP_def mem_def hasId_def freshId_def
  destructure_def trim_def isWhiteSpace_def respond_def Let_def

lemma status_respond [simp]: "status (respond n b) = n" "json (respond n b) = b"
  by (simp_all add: respond_def)

lemma isNonEmptyString_asString: "isNonEmptyString v \<Longrightarrow> v = JStr (asString v)"
  by (cases v) auto

text \<open>The three field checks accept exactly the bodies whose present fields are valid.\<close>

lemma collectUpdates_Inr:
  "collectUpdates t d i = Inr u \<longleftrightarrow>
     (t = JUndefined \<or> isNonEmptyString t) \<and> (d = JUndefined \<or> isNonEmptyString d) \<and>
     (i = JUndefined \<or> isNonEmptyString i) \<and>
     u = \<lparr>u_title = (if t = JUndefined then None else Some (asString t)),
          u_description = (if d = JUndefined then None else Some (asString d)),
          u_imageUrl = (if i = JUndefined then None else Some (asString i))\<rparr>"
  by (auto simp: collectUpdates_def checkTitle_def checkDescription_def checkImageUrl_def
      noUpdates_def)

lemma collectUpdates_Inl:
  "collectUpdates t d i = Inl msg \<longleftrightarrow>
     (if t \<noteq> JUndefined \<and> \<not> isNonEmptyString t then msg = ''Invalid title''
      else if d \<noteq> JUndefined \<and> \<not> isNonEmptyString d then msg = ''Invalid description''
      else i \<noteq> JUndefined \<and> \<not> isNonEmptyString i \<and> msg = ''Invalid imageUrl'')"
  by (auto simp: collectUpdates_def checkTitle_def checkDescription_def checkImageUrl_def)

lemma keys_empty:
  "length (keys u) = 0 \<longleftrightarrow> u_title u = None \<and> u_description u = None \<and> u_imageUrl u = None"
  by (simp add: keys_def)


lemma mem_updatesAsGiven: "updatesAsGiven mem"
  by (auto simp: updatesAsGiven_def mem_def split: option.splits)

lemma mem_deleteRemoves: "deleteRemoves mem"
  by (auto simp: deleteRemoves_def mem_def find_None_iff)



lemma updateProduct_valid:
  assumes "auth req = Some uid" and "uid \<noteq> []"
    and "destructure (body req) = Inr (t, d, i)"
    and "collectUpdates t d i = Inr upd" and "keys upd \<noteq> []"
  shows "updateProduct q req st =
     (case q_getProductById q (firstOrSelf (params_id req)) st of
        (Inl error, st1) \<Rightarrow>
          (respond 500 (ErrorJ ''Failed to update product''),
           [GetProductById (firstOrSelf (params_id req))], st1)
      | (Inr None, st1) \<Rightarrow>
          (respond 404 (ErrorJ ''Product not found''),
           [GetProductById (firstOrSelf (params_id req))], st1)
      | (Inr (Some existingProduct), st1) \<Rightarrow>
          if userId existingProduct \<noteq> uid
          then (respond 403 (ErrorJ ''You can only update your own products''),
                [GetProductById (firstOrSelf (params_id req))], st1)
          else
            (case q_updateProduct q (firstOrSelf (params_id req)) upd st1 of
               (Inl error, st2) \<Rightarrow>
                 (respond 500 (ErrorJ ''Failed to update product''),
                  [GetProductById (firstOrSelf (params_id req)),
                   UpdateProduct (firstOrSelf (params_id req)) upd], st2)
             | (Inr p, st2) \<Rightarrow>
                 (respond 200 (ProductJ p),
                  [GetProductById (firstOrSelf (params_id req)),
                   UpdateProduct (firstOrSelf (params_id req)) upd], st2)))"
  using assms by (simp add: updateProduct_def Let_def)

lemma updateProduct_200:
  assumes "updateProduct q req st = (r, cs, st')" and "status r = 200"
  shows "\<exists>uid t d i upd p st1 p'. auth req = Some uid \<and> uid \<noteq> [] \<and>
           destructure (body req) = Inr (t, d, i) \<and>
           collectUpdates t d i = Inr upd \<and> keys upd \<noteq> [] \<and>
           q_getProductById q (firstOrSelf (params_id req)) st = (Inr (Some p), st1) \<and>
           userId p = uid \<and>
           q_updateProduct q (firstOrSelf (params_id req)) upd st1 = (Inr p', st') \<and>
           r = respond 200 (ProductJ p') \<and>
           cs = [GetProductById (firstOrSelf (params_id req)),
                 UpdateProduct (firstOrSelf (params_id req)) upd]"
  using assms
  by (auto simp: updateProduct_def Let_def split: option.splits if_splits sum.splits prod.splits)

lemma deleteProduct_auth:
  assumes "auth req = Some uid" and "uid \<noteq> []"
  shows "deleteProduct q req st =
     (case q_getProductById q (firstOrSelf (params_id req)) st of
        (Inl error, st1) \<Rightarrow>
          (respond 500 (ErrorJ ''Failed to delete product''),
           [GetProductById (firstOrSelf (params_id req))], st1)
      | (Inr None, st1) \<Rightarrow>
          (respond 404 (ErrorJ ''Product not found''),
           [GetProductById (firstOrSelf (params_id req))], st1)
      | (Inr (Some existingProduct), st1) \<Rightarrow>
          if userId existingProduct \<noteq> uid
          then (respond 403 (ErrorJ ''You can only delete your own products''),
                [GetProductById (firstOrSelf (params_id req))], st1)
          else
            (case q_deleteProduct q (firstOrSelf (params_id req)) st1 of
               (Inl error, st2) \<Rightarrow>
                 (respond 500 (ErrorJ ''Failed to delete product''),
                  [GetProductById (firstOrSelf (params_id req)),
                   DeleteProduct (firstOrSelf (params_id req))], st2)
             | (Inr u, st2) \<Rightarrow>
                 (respond 200 (MessageJ ''Product deleted successfully''),
                  [GetProductById (firstOrSelf (params_id req)),
                   DeleteProduct (firstOrSelf (params_id req))], st2)))"
  using assms by (simp add: deleteProduct_def Let_def)

lemma deleteProduct_200:
  assumes "deleteProduct q req st = (r, cs, st')" and "status r = 200"
  shows "\<exists>st1. q_deleteProduct q (firstOrSelf (params_id req)) st1 = (Inr (), st')"
  using assms
  by (auto simp: deleteProduct_def Let_def split: option.splits if_splits sum.splits prod.splits)

subsection \<open>createProduct: the owner is the caller\<close>



subsection \<open>updateProduct and deleteProduct: owner only\<close>

text \<open>
  C2, as amended. The caller has an identity (a non-empty string), the lookup of the
  request's id finds a product and leaves the store as it is, and the product's \<open>userId\<close>
  is not the caller. Then \<^verbatim>\<open>deleteProduct\<close> answers 403 with
  \<open>You can only delete your own products\<close>; \<^verbatim>\<open>updateProduct\<close> answers 403 with
  \<open>You can only update your own products\<close> when the body passes the field checks, which
  come first (each of \<open>title\<close>, \<open>description\<close>, \<open>imageUrl\<close> that is present is a string
  not empty once trimmed, and one of them is present). In both the only persistence call
  is the lookup and the store returned is the one before the call, on which
  \<^verbatim>\<open>getProductById\<close> answers 200 with the product (for an id that is not empty).
\<close>

theorem non_owner_forbidden:
  assumes "auth req = Some uid" and "uid \<noteq> []"
    and "q_getProductById q (firstOrSelf (params_id req)) st = (Inr (Some p), st)"
    and "userId p \<noteq> uid"
  shows
    "(destructure (body req) = Inr (t, d, i) \<and>
      (t = JUndefined \<or> isNonEmptyString t) \<and> (d = JUndefined \<or> isNonEmptyString d) \<and>
      (i = JUndefined \<or> isNonEmptyString i) \<and>
      (t \<noteq> JUndefined \<or> d \<noteq> JUndefined \<or> i \<noteq> JUndefined) \<longrightarrow>
        updateProduct q req st =
          (respond 403 (ErrorJ ''You can only update your own products''),
           [GetProductById (firstOrSelf (params_id req))], st)) \<and>
     deleteProduct q req st =
       (respond 403 (ErrorJ ''You can only delete your own products''),
        [GetProductById (firstOrSelf (params_id req))], st) \<and>
     (firstOrSelf (params_id req) \<noteq> None \<and> firstOrSelf (params_id req) \<noteq> Some [] \<longrightarrow>
        getProductById q req st =
          (respond 200 (ProductJ (Some p)), [GetProductById (firstOrSelf (params_id req))], st))"
proof -
  have del: "deleteProduct q req st =
       (respond 403 (ErrorJ ''You can only delete your own products''),
        [GetProductById (firstOrSelf (params_id req))], st)"
    using deleteProduct_auth[OF assms(1,2), of q st] assms(3,4) by simp
  have upd: "updateProduct q req st =
          (respond 403 (ErrorJ ''You can only update your own products''),
           [GetProductById (firstOrSelf (params_id req))], st)"
    if b: "destructure (body req) = Inr (t, d, i)"
      and v: "(t = JUndefined \<or> isNonEmptyString t) \<and> (d = JUndefined \<or> isNonEmptyString d) \<and>
           (i = JUndefined \<or> isNonEmptyString i)"
      and one: "t \<noteq> JUndefined \<or> d \<noteq> JUndefined \<or> i \<noteq> JUndefined"
  proof -
    from v obtain u where u: "collectUpdates t d i = Inr u"
      by (simp add: collectUpdates_Inr)
    then have "keys u \<noteq> []"
      using one keys_empty[of u] by (auto simp: collectUpdates_Inr)
    from updateProduct_valid[OF assms(1,2) b u this, of q st] assms(3,4)
    show ?thesis by simp
  qed
  have get: "getProductById q req st =
          (respond 200 (ProductJ (Some p)), [GetProductById (firstOrSelf (params_id req))], st)"
    if "firstOrSelf (params_id req) \<noteq> None \<and> firstOrSelf (params_id req) \<noteq> Some []"
    using that assms(3) by (simp add: getProductById_def Let_def)
  from del upd get show ?thesis by blast
qed

text \<open>
  The spec's scenario: \<open>user_B\<close> calls update (with a new title) and delete on the
  product of \<open>user_A\<close>; both are refused and the product is still there.
\<close>

theorem non_owner_forbidden_witness:
  "updateProduct mem
     \<lparr>auth = Some userB, params_id = Single (js ''p''),
      body = JObj [(js ''title'', JStr (js ''New''))]\<rparr> [productP] =
     (respond 403 (ErrorJ ''You can only update your own products''),
      [GetProductById (Some (js ''p''))], [productP]) \<and>
   deleteProduct mem
     \<lparr>auth = Some userB, params_id = Single (js ''p''),
      body = JObj [(js ''title'', JStr (js ''New''))]\<rparr> [productP] =
     (respond 403 (ErrorJ ''You can only delete your own products''),
      [GetProductById (Some (js ''p''))], [productP]) \<and>
   getProductById mem
     \<lparr>auth = Some userB, params_id = Single (js ''p''),
      body = JObj [(js ''title'', JStr (js ''New''))]\<rparr> [productP] =
     (respond 200 (ProductJ (Some productP)), [GetProductById (Some (js ''p''))], [productP])"
proof -
  let ?req = "\<lparr>auth = Some userB, params_id = Single (js ''p''),
               body = JObj [(js ''title'', JStr (js ''New''))]\<rparr>"
  have h1: "auth ?req = Some userB" by simp
  have h2: "userB \<noteq> []" by (simp add: example_defs)
  have h3: "q_getProductById mem (firstOrSelf (params_id ?req)) [productP] =
      (Inr (Some productP), [productP])"
    by (simp add: example_defs)
  have h4: "userId productP \<noteq> userB" by (simp add: example_defs)
  have b: "destructure (body ?req) = Inr (JStr (js ''New''), JUndefined, JUndefined)"
    by (simp add: example_defs)
  have v: "isNonEmptyString (JStr (js ''New''))" by (simp add: example_defs)
  have p: "js ''p'' \<noteq> []" by (simp add: example_defs)
  from non_owner_forbidden[OF h1 h2 h3 h4, of "JStr (js ''New'')" JUndefined JUndefined] b v p
  show ?thesis by simp
qed

text \<open>
  C2 as stated fails: \<open>user_B\<close> sends an update with the empty object as body for the
  product of \<open>user_A\<close>. The identity is present, the product exists and belongs to
  someone else, and the answer is 400, not 403.
\<close>

theorem non_owner_update_without_fields:
  "auth \<lparr>auth = Some userB, params_id = Single (js ''p''), body = JObj []\<rparr> = Some userB \<and>
   userB \<noteq> [] \<and>
   q_getProductById mem (Some (js ''p'')) [productP] = (Inr (Some productP), [productP]) \<and>
   userId productP \<noteq> userB \<and>
   updateProduct mem \<lparr>auth = Some userB, params_id = Single (js ''p''), body = JObj []\<rparr>
     [productP] =
     (respond 400 (ErrorJ ''At least one field is required''), [], [productP]) \<and>
   status (fst (updateProduct mem
     \<lparr>auth = Some userB, params_id = Single (js ''p''), body = JObj []\<rparr> [productP])) \<noteq> 403"
  by (simp add: updateProduct_def collectUpdates_def checkTitle_def checkDescription_def
      checkImageUrl_def noUpdates_def keys_def example_defs)

subsection \<open>updateProduct: the field checks\<close>

text \<open>
  C3. In \<^verbatim>\<open>updateProduct\<close> with an identity present, let \<open>t\<close>, \<open>d\<close>, \<open>i\<close> be the
  \<open>title\<close>, \<open>description\<close> and \<open>imageUrl\<close> of the body (\<^verbatim>\<open>undefined\<close> when absent). A field
  that is present has to be a string that is not empty once trimmed. They are checked in
  the order title, description, imageUrl, and the first one that fails answers 400 with
  \<open>Invalid title\<close>, \<open>Invalid description\<close> or \<open>Invalid imageUrl\<close>, with no persistence call
  and the store untouched, whatever the persistence layer and the store are. When no
  present field fails, none of the three messages is the answer.
\<close>

theorem updateProduct_field_validation:
  assumes "auth req = Some uid" and "uid \<noteq> []"
    and "destructure (body req) = Inr (t, d, i)"
  shows
    "(t \<noteq> JUndefined \<and> \<not> isNonEmptyString t \<longrightarrow>
        updateProduct q req st = (respond 400 (ErrorJ ''Invalid title''), [], st)) \<and>
     ((t = JUndefined \<or> isNonEmptyString t) \<and> d \<noteq> JUndefined \<and> \<not> isNonEmptyString d \<longrightarrow>
        updateProduct q req st = (respond 400 (ErrorJ ''Invalid description''), [], st)) \<and>
     ((t = JUndefined \<or> isNonEmptyString t) \<and> (d = JUndefined \<or> isNonEmptyString d) \<and>
      i \<noteq> JUndefined \<and> \<not> isNonEmptyString i \<longrightarrow>
        updateProduct q req st = (respond 400 (ErrorJ ''Invalid imageUrl''), [], st)) \<and>
     ((t = JUndefined \<or> isNonEmptyString t) \<and> (d = JUndefined \<or> isNonEmptyString d) \<and>
      (i = JUndefined \<or> isNonEmptyString i) \<longrightarrow>
        json (fst (updateProduct q req st)) \<noteq> ErrorJ ''Invalid title'' \<and>
        json (fst (updateProduct q req st)) \<noteq> ErrorJ ''Invalid description'' \<and>
        json (fst (updateProduct q req st)) \<noteq> ErrorJ ''Invalid imageUrl'')"
proof -
  have inv: "collectUpdates t d i = Inl msg \<Longrightarrow>
      updateProduct q req st = (respond 400 (ErrorJ msg), [], st)" for msg
    using assms by (simp add: updateProduct_def)
  have a: "t \<noteq> JUndefined \<and> \<not> isNonEmptyString t \<longrightarrow>
        updateProduct q req st = (respond 400 (ErrorJ ''Invalid title''), [], st)"
    by (auto intro!: inv simp: collectUpdates_Inl)
  have b: "(t = JUndefined \<or> isNonEmptyString t) \<and> d \<noteq> JUndefined \<and> \<not> isNonEmptyString d \<longrightarrow>
        updateProduct q req st = (respond 400 (ErrorJ ''Invalid description''), [], st)"
    by (auto intro!: inv simp: collectUpdates_Inl)
  have c: "(t = JUndefined \<or> isNonEmptyString t) \<and> (d = JUndefined \<or> isNonEmptyString d) \<and>
      i \<noteq> JUndefined \<and> \<not> isNonEmptyString i \<longrightarrow>
        updateProduct q req st = (respond 400 (ErrorJ ''Invalid imageUrl''), [], st)"
    by (auto intro!: inv simp: collectUpdates_Inl)
  have d: "(t = JUndefined \<or> isNonEmptyString t) \<and> (d = JUndefined \<or> isNonEmptyString d) \<and>
      (i = JUndefined \<or> isNonEmptyString i) \<longrightarrow>
        json (fst (updateProduct q req st)) \<noteq> ErrorJ ''Invalid title'' \<and>
        json (fst (updateProduct q req st)) \<noteq> ErrorJ ''Invalid description'' \<and>
        json (fst (updateProduct q req st)) \<noteq> ErrorJ ''Invalid imageUrl''"
  proof
    assume v: "(t = JUndefined \<or> isNonEmptyString t) \<and> (d = JUndefined \<or> isNonEmptyString d) \<and>
      (i = JUndefined \<or> isNonEmptyString i)"
    then obtain u where "collectUpdates t d i = Inr u"
      by (simp add: collectUpdates_Inr)
    then show "json (fst (updateProduct q req st)) \<noteq> ErrorJ ''Invalid title'' \<and>
        json (fst (updateProduct q req st)) \<noteq> ErrorJ ''Invalid description'' \<and>
        json (fst (updateProduct q req st)) \<noteq> ErrorJ ''Invalid imageUrl''"
      using assms
      by (simp add: updateProduct_def respond_def Let_def split: prod.splits sum.splits option.splits)
  qed
  from a b c d show ?thesis by blast
qed

text \<open>
  The body \<^verbatim>\<open>{title: "", description: "valid"}\<close> is answered 400 \<open>Invalid title\<close>, for
  a product that exists and for one that does not.
\<close>

theorem updateProduct_field_validation_witness:
  "updateProduct mem
     \<lparr>auth = Some userA, params_id = Single (js ''p''),
      body = JObj [(js ''title'', JStr []), (js ''description'', JStr (js ''valid''))]\<rparr>
     [productP] =
     (respond 400 (ErrorJ ''Invalid title''), [], [productP]) \<and>
   updateProduct mem
     \<lparr>auth = Some userA, params_id = Single (js ''p''),
      body = JObj [(js ''title'', JStr []), (js ''description'', JStr (js ''valid''))]\<rparr>
     [] =
     (respond 400 (ErrorJ ''Invalid title''), [], [])"
proof -
  let ?req = "\<lparr>auth = Some userA, params_id = Single (js ''p''),
      body = JObj [(js ''title'', JStr []), (js ''description'', JStr (js ''valid''))]\<rparr>"
  have h1: "auth ?req = Some userA" by simp
  have h2: "userA \<noteq> []" by (simp add: example_defs)
  have h3: "destructure (body ?req) = Inr (JStr [], JStr (js ''valid''), JUndefined)"
    by (simp add: example_defs)
  have v: "\<not> isNonEmptyString (JStr [])" by (simp add: example_defs)
  from updateProduct_field_validation[OF h1 h2 h3, of mem "[productP]"]
    updateProduct_field_validation[OF h1 h2 h3, of mem "[]"] v
  show ?thesis by simp
qed

subsection \<open>updateProduct: the partial update\<close>

text \<open>
  C4. Take an \<^verbatim>\<open>updateProduct\<close> call that answers 200; let \<open>t\<close>, \<open>d\<close>, \<open>i\<close> be the three
  fields of the body and \<open>p\<close> the product the lookup finds. The persistence calls are the
  lookup and one \<^verbatim>\<open>queries.updateProduct\<close>, whose second argument has exactly the fields
  the body supplies, each of them a validated string; it has no \<open>id\<close> and no \<open>userId\<close>
  (the type \<open>updates\<close> has neither). With a persistence layer that applies its argument
  as a partial update, the product returned has the \<open>id\<close> and the \<open>userId\<close> of \<open>p\<close>, the
  supplied values in the supplied fields and the values of \<open>p\<close> in the others.
\<close>

theorem updateProduct_partial:
  assumes "updateProduct q req st = (r, cs, st')" and "status r = 200"
    and "destructure (body req) = Inr (t, d, i)"
    and "q_getProductById q (firstOrSelf (params_id req)) st = (Inr (Some p), st1)"
    and "updatesAsGiven q"
  shows
    "cs = [GetProductById (firstOrSelf (params_id req)),
           UpdateProduct (firstOrSelf (params_id req))
             \<lparr>u_title = (if t = JUndefined then None else Some (asString t)),
              u_description = (if d = JUndefined then None else Some (asString d)),
              u_imageUrl = (if i = JUndefined then None else Some (asString i))\<rparr>] \<and>
     (t \<noteq> JUndefined \<longrightarrow> isNonEmptyString t \<and> t = JStr (asString t)) \<and>
     (d \<noteq> JUndefined \<longrightarrow> isNonEmptyString d \<and> d = JStr (asString d)) \<and>
     (i \<noteq> JUndefined \<longrightarrow> isNonEmptyString i \<and> i = JStr (asString i)) \<and>
     (\<forall>p'. json r = ProductJ (Some p') \<longrightarrow>
        id_p p' = id_p p \<and> userId p' = userId p \<and>
        title p' = (if t = JUndefined then title p else asString t) \<and>
        description p' = (if d = JUndefined then description p else asString d) \<and>
        imageUrl p' = (if i = JUndefined then imageUrl p else asString i))"
proof -
  let ?rid = "firstOrSelf (params_id req)"
  let ?u = "\<lparr>u_title = (if t = JUndefined then None else Some (asString t)),
              u_description = (if d = JUndefined then None else Some (asString d)),
              u_imageUrl = (if i = JUndefined then None else Some (asString i))\<rparr>"
  from updateProduct_200[OF assms(1,2)] assms(3,4)
  obtain upd p' where cu: "collectUpdates t d i = Inr upd"
    and q2: "q_updateProduct q ?rid upd st1 = (Inr p', st')"
    and r: "r = respond 200 (ProductJ p')"
    and cs: "cs = [GetProductById ?rid, UpdateProduct ?rid upd]"
    by auto
  from cu have upd: "upd = ?u"
    and valid: "(t = JUndefined \<or> isNonEmptyString t)" "(d = JUndefined \<or> isNonEmptyString d)"
      "(i = JUndefined \<or> isNonEmptyString i)"
    by (simp_all add: collectUpdates_Inr)
  have c1: "cs = [GetProductById ?rid, UpdateProduct ?rid ?u]"
    using cs upd by simp
  have c2: "(t \<noteq> JUndefined \<longrightarrow> isNonEmptyString t \<and> t = JStr (asString t))"
    "(d \<noteq> JUndefined \<longrightarrow> isNonEmptyString d \<and> d = JStr (asString d))"
    "(i \<noteq> JUndefined \<longrightarrow> isNonEmptyString i \<and> i = JStr (asString i))"
    using valid isNonEmptyString_asString by blast+
  have c3: "id_p x = id_p p \<and> userId x = userId p \<and>
        title x = (if t = JUndefined then title p else asString t) \<and>
        description x = (if d = JUndefined then description p else asString d) \<and>
        imageUrl x = (if i = JUndefined then imageUrl p else asString i)"
    if "json r = ProductJ (Some x)" for x
  proof -
    from that r have "p' = Some x" by simp
    with q2 assms(4,5) have "x = applyUpdates upd p"
      unfolding updatesAsGiven_def by blast
    then show ?thesis
      by (simp add: upd applyUpdates_def)
  qed
  from c1 c2 c3 show ?thesis by blast
qed

text \<open>
  \<open>user_A\<close> updates the description of the product: title, image, id and owner stay.
\<close>

theorem updateProduct_partial_witness:
  "updateProduct mem
     \<lparr>auth = Some userA, params_id = Single (js ''p''),
      body = JObj [(js ''description'', JStr (js ''D2''))]\<rparr> [productP] =
     (respond 200 (ProductJ (Some (productP\<lparr>description := js ''D2''\<rparr>))),
      [GetProductById (Some (js ''p'')),
       UpdateProduct (Some (js ''p''))
         \<lparr>u_title = None, u_description = Some (js ''D2''), u_imageUrl = None\<rparr>],
      [productP\<lparr>description := js ''D2''\<rparr>]) \<and>
   id_p (productP\<lparr>description := js ''D2''\<rparr>) = id_p productP \<and>
   userId (productP\<lparr>description := js ''D2''\<rparr>) = userId productP \<and>
   title (productP\<lparr>description := js ''D2''\<rparr>) = title productP \<and>
   imageUrl (productP\<lparr>description := js ''D2''\<rparr>) = imageUrl productP"
proof -
  let ?req = "\<lparr>auth = Some userA, params_id = Single (js ''p''),
      body = JObj [(js ''description'', JStr (js ''D2''))]\<rparr>"
  let ?p' = "productP\<lparr>description := js ''D2''\<rparr>"
  have run: "updateProduct mem ?req [productP] =
     (respond 200 (ProductJ (Some ?p')),
      [GetProductById (Some (js ''p'')),
       UpdateProduct (Some (js ''p''))
         \<lparr>u_title = None, u_description = Some (js ''D2''), u_imageUrl = None\<rparr>],
      [?p'])"
    by (simp add: updateProduct_def collectUpdates_def checkTitle_def checkDescription_def
        checkImageUrl_def noUpdates_def keys_def applyUpdates_def example_defs)
  have ok: "status (respond 200 (ProductJ (Some ?p'))) = 200" by simp
  have b: "destructure (body ?req) = Inr (JUndefined, JStr (js ''D2''), JUndefined)"
    by (simp add: example_defs)
  have l: "q_getProductById mem (firstOrSelf (params_id ?req)) [productP] =
      (Inr (Some productP), [productP])"
    by (simp add: example_defs)
  from updateProduct_partial[OF run ok b l mem_updatesAsGiven]
  have "id_p ?p' = id_p productP \<and> userId ?p' = userId productP \<and>
      title ?p' = title productP \<and> imageUrl ?p' = imageUrl productP"
    by simp
  with run show ?thesis by simp
qed

subsection \<open>updateProduct: a body without fields\<close>

text \<open>
  C5. In \<^verbatim>\<open>updateProduct\<close> with an identity present (a non-empty string), a body that
  is an object with none of the properties \<open>title\<close>, \<open>description\<close>, \<open>imageUrl\<close> is answered
  400 with \<open>At least one field is required\<close>, with no persistence call and the store
  untouched, whatever the persistence layer, the store and the caller are.
\<close>

theorem updateProduct_no_fields:
  assumes "auth req = Some uid" and "uid \<noteq> []"
    and "body req = JObj kvs"
    and "js ''title'' \<notin> fst ` set kvs" and "js ''description'' \<notin> fst ` set kvs"
    and "js ''imageUrl'' \<notin> fst ` set kvs"
  shows "updateProduct q req st =
           (respond 400 (ErrorJ ''At least one field is required''), [], st)"
proof -
  have "destructure (body req) = Inr (JUndefined, JUndefined, JUndefined)"
    using assms(3-6) by (simp add: destructure_def map_of_eq_None_iff[THEN iffD2])
  moreover have "collectUpdates JUndefined JUndefined JUndefined = Inr noUpdates"
    by (simp add: collectUpdates_Inr noUpdates_def)
  ultimately show ?thesis
    using assms(1,2) by (simp add: updateProduct_def keys_def noUpdates_def)
qed

text \<open>The empty object, sent by the owner of the product and by someone else.\<close>

theorem updateProduct_no_fields_witness:
  "updateProduct mem \<lparr>auth = Some userA, params_id = Single (js ''p''), body = JObj []\<rparr>
     [productP] =
     (respond 400 (ErrorJ ''At least one field is required''), [], [productP]) \<and>
   updateProduct mem \<lparr>auth = Some userB, params_id = Single (js ''p''), body = JObj []\<rparr>
     [productP] =
     (respond 400 (ErrorJ ''At least one field is required''), [], [productP])"
proof -
  have a: "userA \<noteq> []" and b: "userB \<noteq> []" by (simp_all add: example_defs)
  have e: "k \<notin> fst ` set ([] :: (jsstring \<times> jsval) list)" for k by simp
  from updateProduct_no_fields[OF _ a _ e e e, of
      "\<lparr>auth = Some userA, params_id = Single (js ''p''), body = JObj []\<rparr>" mem "[productP]"]
    updateProduct_no_fields[OF _ b _ e e e, of
      "\<lparr>auth = Some userB, params_id = Single (js ''p''), body = JObj []\<rparr>" mem "[productP]"]
  show ?thesis by simp
qed

subsection \<open>getProductById\<close>

text \<open>
  C6. In \<^verbatim>\<open>getProductById\<close> with an id that is not empty, when the persistence layer
  does not raise: if it finds no product, the answer is 404 with \<open>Product not found\<close>;
  if it finds one, the answer is 200 with that product.
\<close>

theorem getProductById_found_or_404:
  assumes "firstOrSelf (params_id req) = Some rid" and "rid \<noteq> []"
    and "q_getProductById q (Some rid) st = (Inr found, st')"
  shows "getProductById q req st =
     (case found of
        None \<Rightarrow> (respond 404 (ErrorJ ''Product not found''), [GetProductById (Some rid)], st')
      | Some p \<Rightarrow> (respond 200 (ProductJ (Some p)), [GetProductById (Some rid)], st'))"
  using assms by (simp add: getProductById_def Let_def split: option.splits)

text \<open>
  The spec's scenario: no product \<open>abc123\<close> exists, and an anonymous request for it is
  answered 404; a request for the product of the store is answered 200 with it.
\<close>

theorem getProductById_found_or_404_witness:
  "getProductById mem \<lparr>auth = None, params_id = Single (js ''abc123''), body = JUndefined\<rparr> [] =
     (respond 404 (ErrorJ ''Product not found''), [GetProductById (Some (js ''abc123''))], []) \<and>
   getProductById mem \<lparr>auth = None, params_id = Single (js ''p''), body = JUndefined\<rparr>
     [productP] =
     (respond 200 (ProductJ (Some productP)), [GetProductById (Some (js ''p''))], [productP])"
proof -
  have a: "js ''abc123'' \<noteq> []" and b: "js ''p'' \<noteq> []" by (simp_all add: js_def)
  have la: "q_getProductById mem (Some (js ''abc123'')) [] = (Inr None, [])"
    by (simp add: example_defs)
  have lb: "q_getProductById mem (Some (js ''p'')) [productP] = (Inr (Some productP), [productP])"
    by (simp add: example_defs)
  from getProductById_found_or_404[OF _ a la, of
      "\<lparr>auth = None, params_id = Single (js ''abc123''), body = JUndefined\<rparr>"]
    getProductById_found_or_404[OF _ b lb, of
      "\<lparr>auth = None, params_id = Single (js ''p''), body = JUndefined\<rparr>"]
  show ?thesis by simp
qed

text \<open>
  C7. In \<^verbatim>\<open>getProductById\<close>, when the id is absent or the empty string (after
  \<^verbatim>\<open>Array.isArray(id) ? id[0] : id\<close>, so also for an empty sequence and for a sequence
  that starts with the empty string), the answer is 400 with \<open>Product id is required\<close>,
  with no persistence call and the store untouched. A sequence is handled as its first
  element alone: the outcome is that of the request with this element as id, and the
  lookup is made with it.
\<close>

theorem getProductById_requires_id:
  "(firstOrSelf (params_id req) = None \<or> firstOrSelf (params_id req) = Some [] \<longrightarrow>
      getProductById q req st = (respond 400 (ErrorJ ''Product id is required''), [], st)) \<and>
   getProductById q (req\<lparr>params_id := Multiple (x # xs)\<rparr>) st =
     getProductById q (req\<lparr>params_id := Single x\<rparr>) st \<and>
   (x \<noteq> [] \<longrightarrow>
      fst (snd (getProductById q (req\<lparr>params_id := Multiple (x # xs)\<rparr>) st)) =
        [GetProductById (Some x)])"
  by (auto simp: getProductById_def Let_def split: prod.splits sum.splits option.splits)

text \<open>
  No id and the empty id are answered 400; the sequence \<open>p, zz\<close> finds the product \<open>p\<close>.
\<close>

theorem getProductById_requires_id_witness:
  "getProductById mem \<lparr>auth = None, params_id = Absent, body = JUndefined\<rparr> [productP] =
     (respond 400 (ErrorJ ''Product id is required''), [], [productP]) \<and>
   getProductById mem \<lparr>auth = None, params_id = Single [], body = JUndefined\<rparr> [productP] =
     (respond 400 (ErrorJ ''Product id is required''), [], [productP]) \<and>
   getProductById mem
     \<lparr>auth = None, params_id = Multiple [js ''p'', js ''zz''], body = JUndefined\<rparr> [productP] =
     (respond 200 (ProductJ (Some productP)), [GetProductById (Some (js ''p''))], [productP])"
proof -
  have s: "getProductById mem \<lparr>auth = None, params_id = Single (js ''p''), body = JUndefined\<rparr>
      [productP] =
     (respond 200 (ProductJ (Some productP)), [GetProductById (Some (js ''p''))], [productP])"
    by (simp add: getProductById_def example_defs)
  from getProductById_requires_id[of
      "\<lparr>auth = None, params_id = Absent, body = JUndefined\<rparr>" mem "[productP]" "js ''p''"
      "[js ''zz'']"]
    getProductById_requires_id[of
      "\<lparr>auth = None, params_id = Single [], body = JUndefined\<rparr>" mem "[productP]" "js ''p''"
      "[js ''zz'']"] s
  show ?thesis by simp
qed

subsection \<open>updateProduct and deleteProduct: the id is not checked\<close>




subsection \<open>deleteProduct: a product that is not there\<close>

text \<open>
  C9. In \<^verbatim>\<open>deleteProduct\<close> with an identity present (a non-empty string), when the
  lookup finds no product the answer is 404 with \<open>Product not found\<close> and the lookup is
  the only persistence call: no delete is made. In particular, with a persistence layer
  whose delete removes the product, a \<^verbatim>\<open>deleteProduct\<close> that was answered 200 is answered
  404 when it is repeated on the store it left.
\<close>

theorem deleteProduct_missing:
  assumes "auth req = Some uid" and "uid \<noteq> []"
  shows
    "(q_getProductById q (firstOrSelf (params_id req)) st = (Inr None, st1) \<longrightarrow>
        deleteProduct q req st =
          (respond 404 (ErrorJ ''Product not found''),
           [GetProductById (firstOrSelf (params_id req))], st1)) \<and>
     (deleteRemoves q \<and> deleteProduct q req st = (r, cs, st2) \<and> status r = 200 \<longrightarrow>
        deleteProduct q req st2 =
          (respond 404 (ErrorJ ''Product not found''),
           [GetProductById (firstOrSelf (params_id req))], st2))"
proof -
  have a: "deleteProduct q req s =
          (respond 404 (ErrorJ ''Product not found''),
           [GetProductById (firstOrSelf (params_id req))], s1)"
    if "q_getProductById q (firstOrSelf (params_id req)) s = (Inr None, s1)" for s s1
    using deleteProduct_auth[OF assms, of q s] that by simp
  have b: "deleteProduct q req st2 =
          (respond 404 (ErrorJ ''Product not found''),
           [GetProductById (firstOrSelf (params_id req))], st2)"
    if "deleteRemoves q" and "deleteProduct q req st = (r, cs, st2)" and "status r = 200"
  proof -
    from deleteProduct_200[OF that(2,3)] obtain s
      where "q_deleteProduct q (firstOrSelf (params_id req)) s = (Inr (), st2)" by blast
    with that(1) have "q_getProductById q (firstOrSelf (params_id req)) st2 = (Inr None, st2)"
      unfolding deleteRemoves_def by blast
    then show ?thesis by (rule a)
  qed
  from a b show ?thesis by blast
qed

text \<open>\<open>user_A\<close> deletes the product twice: 200, then 404.\<close>

theorem deleteProduct_missing_witness:
  "deleteProduct mem \<lparr>auth = Some userA, params_id = Single (js ''p''), body = JUndefined\<rparr>
     [productP] =
     (respond 200 (MessageJ ''Product deleted successfully''),
      [GetProductById (Some (js ''p'')), DeleteProduct (Some (js ''p''))], []) \<and>
   deleteProduct mem \<lparr>auth = Some userA, params_id = Single (js ''p''), body = JUndefined\<rparr>
     [] =
     (respond 404 (ErrorJ ''Product not found''), [GetProductById (Some (js ''p''))], [])"
proof -
  let ?req = "\<lparr>auth = Some userA, params_id = Single (js ''p''), body = JUndefined\<rparr>"
  have h1: "auth ?req = Some userA" by simp
  have h2: "userA \<noteq> []" by (simp add: example_defs)
  have first: "deleteProduct mem ?req [productP] =
     (respond 200 (MessageJ ''Product deleted successfully''),
      [GetProductById (Some (js ''p'')), DeleteProduct (Some (js ''p''))], [])"
    by (simp add: deleteProduct_def example_defs)
  have ok: "status (respond 200 (MessageJ ''Product deleted successfully'')) = 200" by simp
  from deleteProduct_missing[OF h1 h2, of mem "[productP]" "[]"
      "respond 200 (MessageJ ''Product deleted successfully'')"
      "[GetProductById (Some (js ''p'')), DeleteProduct (Some (js ''p''))]" "[]"]
    mem_deleteRemoves first ok
  have "deleteProduct mem ?req [] =
     (respond 404 (ErrorJ ''Product not found''), [GetProductById (Some (js ''p''))], [])"
    by simp
  with first show ?thesis by simp
qed

subsection \<open>Values are stored as they come\<close>



end
